theory Spec2Isabelle
  imports Main "HOL-Library.Word" "HOL-Library.Sublist"
begin

unbundle bit_operations_syntax

section \<open>Transaction coordinators of the column store: SS2PL and SGT\<close>

text \<open>
  The two coordinators are the class \<open>TransactionCoordinator\<close> of
  \<open>svcc/cc/2pl_table/transaction_coordinator.hpp\<close> (namespace \<open>twopl_table\<close>, strict
  two-phase locking) and of \<open>svcc/cc/nofalsenegatives/transaction_coordinator.hpp\<close>
  (namespace \<open>nofalsenegatives\<close>, serialization-graph testing). Functions of the first are
  prefixed \<open>twopl_\<close>, functions of the second \<open>sgt_\<close>.
\<close>

subsection \<open>Access records\<close>

type_synonym u64 = "64 word"

text \<open>
  \<open>access(transaction, rw)\<close>: the highest bit is the mode, the lower 63 bits the
  transaction id. \<open>find(encoded_id)\<close> returns a \<open>std::tuple<uint64_t, bool>\<close>; its second
  component is \<open>encoded_id >> 63\<close> converted to \<open>bool\<close>, that is, compared with zero.
\<close>

definition access :: "u64 \<Rightarrow> bool \<Rightarrow> u64" where
  "access transaction rw =
     (if rw then 0x8000000000000000 OR transaction
      else 0x7FFFFFFFFFFFFFFF AND transaction)"

definition find_access :: "u64 \<Rightarrow> u64 \<times> bool" where
  "find_access encoded_id =
     (0x7FFFFFFFFFFFFFFF AND encoded_id, drop_bit 63 encoded_id \<noteq> 0)"

subsection \<open>Build configuration and assertions\<close>

text \<open>
  Both files define \<open>verify(expression)\<close> as \<open>assert(expression)\<close> unless \<open>NDEBUG\<close> is
  defined, and as \<open>((void)(expression))\<close> otherwise. \<open>ndebug\<close> says whether \<open>NDEBUG\<close> is
  defined; \<open>verify\<close> returns whether execution goes on. A failed assertion stops the
  process, which the operations below report as \<open>Inl AssertionFailed\<close>.
\<close>

datatype error = AssertionFailed

record build_config =
  ndebug :: bool

definition verify :: "bool \<Rightarrow> bool \<Rightarrow> bool" where
  "verify nd expression = (nd \<or> expression)"

subsection \<open>Tables, undo records and thread-local state\<close>

text \<open>
  The operations receive their vectors by reference (\<open>column\<close>, \<open>lsn_column\<close>,
  \<open>rw_table\<close>, \<open>locking\<close> or \<open>locked\<close>) and the undo records keep these references, so
  the vectors live in a store indexed by a reference (\<open>ref\<close>) and an offset. The store is
  total: the source indexes the vectors unchecked, and an offset outside a vector is not
  part of the model. An entry of \<open>rw_table[offset]\<close> is a ticket with its access record.
\<close>

type_synonym ref = nat

text \<open>
  Modelled from the spec: \<open>svcc/cc/*/transaction_information.hpp\<close> is not among the
  sources. A read record is \<open>(rw_table_ref, locked_ref, prv, offset, tx)\<close>, a write record
  has the read fields plus \<open>(column_ref, new_value, old_value, abort_flag)\<close>; the
  constructors take their arguments in the order of the SS2PL coordinator's calls.
\<close>

datatype 'v tx_info =
    ReadTransactionInformation
      (rw_table_of: ref) (locked_of: ref) (prv_of: u64) (offset_of: u64) (transaction_of: u64)
  | WriteTransactionInformation
      (new_of: 'v) (old_of: 'v) (column_of: ref) (lsn_column_of: ref)
      (locked_of: ref) (rw_table_of: ref) (prv_of: u64) (offset_of: u64)
      (transaction_of: u64) (abort_of: bool)

text \<open>
  Modelled from the spec: \<open>isWriteTransaction\<close> of the missing
  \<open>transaction_information.hpp\<close> tells a write record from a read record.
\<close>

fun isWriteTransaction :: "'v tx_info \<Rightarrow> bool" where
  "isWriteTransaction (ReadTransactionInformation rw lk p off tx) = False"
| "isWriteTransaction (WriteTransactionInformation n old c l lk rw p off tx ab) = True"

text \<open>
  Modelled from the spec: \<open>isAbort\<close> of the missing \<open>transaction_information.hpp\<close> is
  the write record's \<open>abort_flag\<close>; a read record has none.
\<close>

fun isAbort :: "'v tx_info \<Rightarrow> bool" where
  "isAbort (ReadTransactionInformation rw lk p off tx) = False"
| "isAbort (WriteTransactionInformation n old c l lk rw p off tx ab) = ab"

text \<open>
  The state both coordinators share: the stored vectors and the thread-local sets and
  undo log (\<open>not_alive_\<close>, \<open>abort_transaction_\<close>, \<open>atom_info_\<close>). The epoch guard and the
  allocator only manage memory and have no field.
\<close>

record 'v tables =
  columns :: "ref \<Rightarrow> u64 \<Rightarrow> 'v"
  lsn_columns :: "ref \<Rightarrow> u64 \<Rightarrow> u64"
  rw_tables :: "ref \<Rightarrow> u64 \<Rightarrow> (u64 \<times> u64) list"
  not_alive :: "u64 set"
  abort_transaction :: "u64 set"
  atom_info :: "'v tx_info list"

text \<open>
  Modelled from the spec: the column's \<open>replace(offset, new) -> old\<close>; the column
  storage is external to the sources.
\<close>

definition column_replace ::
  "(ref \<Rightarrow> u64 \<Rightarrow> 'v) \<Rightarrow> ref \<Rightarrow> u64 \<Rightarrow> 'v \<Rightarrow> 'v \<times> (ref \<Rightarrow> u64 \<Rightarrow> 'v)" where
  "column_replace cols column offset v =
     (cols column offset, cols(column := (cols column)(offset := v)))"

text \<open>
  Modelled from the spec: the \<open>rw_table\<close> list's erase-by-ticket; the list
  (\<open>ds/atomic_singly_linked_list.hpp\<close>) is not among the sources.
\<close>

definition erase :: "u64 \<Rightarrow> (u64 \<times> u64) list \<Rightarrow> (u64 \<times> u64) list" where
  "erase prv xs = filter (\<lambda>e. fst e \<noteq> prv) xs"

text \<open>
  Modelled from the spec: \<open>deleteFromRWTable\<close> of the missing
  \<open>transaction_information.hpp\<close> unlinks the record from its \<open>rw_table[offset]\<close>, erasing
  the exact \<open>prv\<close> ticket. \<open>deallocate\<close> returns memory to the allocator and changes
  nothing here.
\<close>

definition deleteFromRWTable :: "'v tx_info \<Rightarrow> ('v, 'z) tables_scheme \<Rightarrow> ('v, 'z) tables_scheme" where
  "deleteFromRWTable t s =
     s\<lparr>rw_tables := (rw_tables s)
          (rw_table_of t := (rw_tables s (rw_table_of t))
             (offset_of t := erase (prv_of t) (rw_tables s (rw_table_of t) (offset_of t))))\<rparr>"

section \<open>The SS2PL coordinator\<close>

text \<open>
  \<open>svcc/cc/2pl_table/lock_manager.hpp\<close> is not among the sources, so the lock manager is
  a parameter: its state \<open>'lm\<close> (which includes the \<open>locking\<close> vectors, since only the lock
  manager reads or writes them) and the three calls the coordinator makes.
  \<open>lm_lock lm transaction rw locking offset abort_set\<close> returns whether the lock is
  granted, the new state and the new abort set. Every call is taken to return: a request
  that waits for ever is outside the model.
\<close>

record 'lm twopl_env = build_config +
  lm_lock :: "'lm \<Rightarrow> u64 \<Rightarrow> bool \<Rightarrow> ref \<Rightarrow> u64 \<Rightarrow> u64 set \<Rightarrow> bool \<times> 'lm \<times> u64 set"
  lm_unlock :: "'lm \<Rightarrow> u64 \<Rightarrow> ref \<Rightarrow> u64 \<Rightarrow> 'lm"
  lm_end :: "'lm \<Rightarrow> u64 \<Rightarrow> 'lm"

record ('v, 'lm) twopl_state = "'v tables" +
  lock_manager :: 'lm

text \<open>\<open>writeValue\<close> instantiated with \<open>abort = true\<close>: the assertion and the swap.\<close>

definition twopl_writeValue_abort ::
  "'lm twopl_env \<Rightarrow> ('v, 'lm) twopl_state \<Rightarrow> 'v \<Rightarrow> ref \<Rightarrow> ref \<Rightarrow> ref \<Rightarrow> ref \<Rightarrow> u64 \<Rightarrow> u64
     \<Rightarrow> error + bool \<times> ('v, 'lm) twopl_state" where
  "twopl_writeValue_abort E s writeValue column lsn_column rw_table locking offset transaction =
     (if \<not> verify (ndebug E) (0 < transaction) then Inl AssertionFailed
      else case column_replace (columns s) column offset writeValue of
        (old, cols) \<Rightarrow> Inr (True, s\<lparr>columns := cols\<rparr>))"

text \<open>
  Modelled from the spec: a write record's \<open>writeValue(tc)\<close>, of the missing
  \<open>transaction_information.hpp\<close>, re-invokes the coordinator's write path with
  \<open>abort = true\<close> to restore the old value. \<open>abort\<close> never calls it on a read record.
\<close>

fun twopl_info_writeValue ::
  "'lm twopl_env \<Rightarrow> 'v tx_info \<Rightarrow> ('v, 'lm) twopl_state \<Rightarrow> error + bool \<times> ('v, 'lm) twopl_state" where
  "twopl_info_writeValue E (WriteTransactionInformation n old c l lk rw p off tx ab) s =
     twopl_writeValue_abort E s old c l rw lk off tx"
| "twopl_info_writeValue E (ReadTransactionInformation rw lk p off tx) s = Inr (True, s)"

text \<open>
  Modelled from the spec: a record's \<open>unlock(lm)\<close>, of the missing
  \<open>transaction_information.hpp\<close>, releases the lock of the record's transaction on the
  record's cell through the lock manager's \<open>unlock\<close>.
\<close>

definition twopl_info_unlock ::
  "'lm twopl_env \<Rightarrow> 'v tx_info \<Rightarrow> ('v, 'lm) twopl_state \<Rightarrow> ('v, 'lm) twopl_state" where
  "twopl_info_unlock E t s =
     s\<lparr>lock_manager := lm_unlock E (lock_manager s) (transaction_of t) (locked_of t) (offset_of t)\<rparr>"

text \<open>The two loops of \<open>abort\<close> over \<open>*atom_info_\<close>, front to back.\<close>

fun twopl_undo ::
  "'lm twopl_env \<Rightarrow> 'v tx_info list \<Rightarrow> ('v, 'lm) twopl_state \<Rightarrow> error + ('v, 'lm) twopl_state" where
  "twopl_undo E [] s = Inr s"
| "twopl_undo E (t # ts) s =
     (if \<not> isWriteTransaction t then twopl_undo E ts s
      else if isAbort t then twopl_undo E ts s
      else case twopl_info_writeValue E t s of
        Inl e \<Rightarrow> Inl e
      | Inr (r, s') \<Rightarrow> twopl_undo E ts s')"

fun twopl_release ::
  "'lm twopl_env \<Rightarrow> 'v tx_info list \<Rightarrow> ('v, 'lm) twopl_state \<Rightarrow> ('v, 'lm) twopl_state" where
  "twopl_release E [] s = s"
| "twopl_release E (t # ts) s = twopl_release E ts (deleteFromRWTable t (twopl_info_unlock E t s))"

text \<open>
  \<open>abort(transaction)\<close>. \<open>atom_info_->~list()\<close> destroys the list, which \<open>start\<close>
  constructs again in place; the model keeps an empty list in between. In the code a
  second walk over the destroyed list (a second \<open>abort\<close>, or a \<open>commit\<close> of a transaction
  that is alive, before the next \<open>start\<close>) is undefined, so the model says nothing about
  such a call.
\<close>

definition twopl_abort ::
  "'lm twopl_env \<Rightarrow> ('v, 'lm) twopl_state \<Rightarrow> u64 \<Rightarrow> error + ('v, 'lm) twopl_state" where
  "twopl_abort E s transaction =
     (let s1 = s\<lparr>not_alive := insert transaction (not_alive s)\<rparr> in
      case twopl_undo E (atom_info s1) s1 of
        Inl e \<Rightarrow> Inl e
      | Inr s2 \<Rightarrow> Inr ((twopl_release E (atom_info s2) s2)\<lparr>atom_info := []\<rparr>))"

text \<open>
  \<open>readValue\<close>: the result is the returned flag, the caller's \<open>readValue\<close> variable and the
  state.
\<close>

definition twopl_readValue ::
  "'lm twopl_env \<Rightarrow> ('v, 'lm) twopl_state \<Rightarrow> 'v \<Rightarrow> ref \<Rightarrow> ref \<Rightarrow> ref \<Rightarrow> ref \<Rightarrow> u64 \<Rightarrow> u64
     \<Rightarrow> error + bool \<times> 'v \<times> ('v, 'lm) twopl_state" where
  "twopl_readValue E s readValue column lsn_column rw_table locking offset transaction =
     (if \<not> verify (ndebug E) (0 < transaction) then Inl AssertionFailed
      else if transaction \<in> not_alive s then Inr (False, readValue, s)
      else let info = access transaction False in
        if \<not> verify (ndebug E) (0 < info) then Inl AssertionFailed
        else case lm_lock E (lock_manager s) transaction False locking offset (abort_transaction s) of
          (no_abort_needed, lm, ab) \<Rightarrow>
            let s1 = s\<lparr>abort_transaction := ab, lock_manager := lm\<rparr> in
            if \<not> no_abort_needed then
              (case twopl_abort E s1 transaction of
                 Inl e \<Rightarrow> Inl e
               | Inr s2 \<Rightarrow> Inr (False, readValue, s2))
            else Inr (True, columns s1 column offset,
                   s1\<lparr>atom_info :=
                       ReadTransactionInformation rw_table locking 0 offset transaction
                         # atom_info s1\<rparr>))"

text \<open>\<open>read\<close> returns a \<open>uint64_t\<close>: \<open>false\<close> is 0, and success is 1.\<close>

definition twopl_read ::
  "'lm twopl_env \<Rightarrow> ('v, 'lm) twopl_state \<Rightarrow> ref \<Rightarrow> ref \<Rightarrow> ref \<Rightarrow> u64 \<Rightarrow> u64
     \<Rightarrow> error + u64 \<times> ('v, 'lm) twopl_state" where
  "twopl_read E s lsn_column rw_table locking offset transaction =
     (if \<not> verify (ndebug E) (0 < transaction) then Inl AssertionFailed
      else if transaction \<in> not_alive s then Inr (0, s)
      else let info = access transaction False in
        if \<not> verify (ndebug E) (0 < info) then Inl AssertionFailed
        else case lm_lock E (lock_manager s) transaction False locking offset (abort_transaction s) of
          (no_abort_needed, lm, ab) \<Rightarrow>
            let s1 = s\<lparr>abort_transaction := ab, lock_manager := lm\<rparr> in
            if \<not> no_abort_needed then
              (case twopl_abort E s1 transaction of
                 Inl e \<Rightarrow> Inl e
               | Inr s2 \<Rightarrow> Inr (0, s2))
            else Inr (1, s1))"

definition twopl_readUndo ::
  "('v, 'lm) twopl_state \<Rightarrow> u64 \<Rightarrow> ref \<Rightarrow> ref \<Rightarrow> ref \<Rightarrow> u64 \<Rightarrow> u64 \<Rightarrow> ('v, 'lm) twopl_state" where
  "twopl_readUndo s prv lsn_column rw_table locking offset transaction =
     s\<lparr>atom_info :=
         ReadTransactionInformation rw_table locking 0 offset transaction # atom_info s\<rparr>"

text \<open>
  \<open>writeValue\<close>, with its template flag \<open>abort\<close> as an argument. With \<open>abort = true\<close> the
  two \<open>if (!abort)\<close> blocks are skipped.
\<close>

definition twopl_writeValue ::
  "'lm twopl_env \<Rightarrow> bool \<Rightarrow> ('v, 'lm) twopl_state \<Rightarrow> 'v \<Rightarrow> ref \<Rightarrow> ref \<Rightarrow> ref \<Rightarrow> ref \<Rightarrow> u64 \<Rightarrow> u64
     \<Rightarrow> error + bool \<times> ('v, 'lm) twopl_state" where
  "twopl_writeValue E abort s writeValue column lsn_column rw_table locking offset transaction =
     (if \<not> verify (ndebug E) (0 < transaction) then Inl AssertionFailed
      else if abort then
        (case column_replace (columns s) column offset writeValue of
           (old, cols) \<Rightarrow> Inr (True, s\<lparr>columns := cols\<rparr>))
      else if transaction \<in> not_alive s then Inr (False, s)
      else case lm_lock E (lock_manager s) transaction True locking offset (abort_transaction s) of
        (no_abort_needed, lm, ab) \<Rightarrow>
          let s1 = s\<lparr>abort_transaction := ab, lock_manager := lm\<rparr> in
          if \<not> no_abort_needed then
            (case twopl_abort E s1 transaction of
               Inl e \<Rightarrow> Inl e
             | Inr s2 \<Rightarrow> Inr (False, s2))
          else case column_replace (columns s1) column offset writeValue of
            (old, cols) \<Rightarrow>
              Inr (True,
                s1\<lparr>columns := cols,
                   atom_info :=
                     WriteTransactionInformation writeValue old column lsn_column locking
                       rw_table 0 offset transaction abort # atom_info s1\<rparr>))"

text \<open>\<open>commit\<close>: the result is the returned flag, the state and the caller's \<open>oset\<close>.\<close>

definition twopl_commit ::
  "'lm twopl_env \<Rightarrow> ('v, 'lm) twopl_state \<Rightarrow> u64 \<Rightarrow> u64 set
     \<Rightarrow> bool \<times> ('v, 'lm) twopl_state \<times> u64 set" where
  "twopl_commit E s transaction oset =
     (if transaction \<in> not_alive s then
        (let s1 = s\<lparr>not_alive := not_alive s - {transaction}\<rparr>;
             s2 = s1\<lparr>lock_manager := lm_end E (lock_manager s1) transaction\<rparr>
         in (False, s2, abort_transaction s2))
      else
        (let s1 = (twopl_release E (atom_info s) s)\<lparr>atom_info := []\<rparr>;
             s2 = s1\<lparr>lock_manager := lm_end E (lock_manager s1) transaction\<rparr>
         in (True, s2, oset)))"

section \<open>The SGT coordinator\<close>

text \<open>
  \<open>svcc/cc/nofalsenegatives/serialization_graph.hpp\<close> is not among the sources, so the
  serialization graph is a parameter: its state \<open>'sg\<close> and the calls the coordinator
  makes. \<open>sg_abort g abort_set\<close> returns the new graph and the new abort set,
  \<open>sg_checkCommited g\<close> its answer and the new graph. Every call is taken to return.
\<close>

record 'sg sgt_env = build_config +
  sg_needsAbort :: "'sg \<Rightarrow> u64 \<Rightarrow> bool"
  sg_abort :: "'sg \<Rightarrow> u64 set \<Rightarrow> 'sg \<times> u64 set"
  sg_checkCommited :: "'sg \<Rightarrow> bool \<times> 'sg"

record ('v, 'sg) sgt_state = "'v tables" +
  lockeds :: "ref \<Rightarrow> u64 \<Rightarrow> u64"
  sg :: 'sg

text \<open>
  \<open>__sync_bool_compare_and_swap(&lockInfo, oldval, newval)\<close> on the local variable
  \<open>lockInfo\<close>: the result is whether the swap happened and the variable's new value.
\<close>

definition sync_bool_compare_and_swap :: "u64 \<Rightarrow> u64 \<Rightarrow> u64 \<Rightarrow> bool \<times> u64" where
  "sync_bool_compare_and_swap cur oldval newval =
     (if cur = oldval then (True, newval) else (False, cur))"

text \<open>
  \<open>while(__sync_bool_compare_and_swap(&lockInfo, 0, 1)) {;}\<close>: the loop goes on while the
  swap succeeds, and returns the final value of \<open>lockInfo\<close>.
\<close>

function spin_lockInfo :: "u64 \<Rightarrow> u64" where
  "spin_lockInfo lockInfo =
     (case sync_bool_compare_and_swap lockInfo 0 1 of
        (swapped, lockInfo') \<Rightarrow> if swapped then spin_lockInfo lockInfo' else lockInfo')"
  by pat_completeness auto
termination
  by (relation "measure (\<lambda>l. if l = 0 then 1 else 0)")
     (auto simp: sync_bool_compare_and_swap_def split: if_splits)

text \<open>
  \<open>writeValue\<close> instantiated with \<open>abort = true\<close>. \<open>locked[offset]\<close> is copied into the
  local \<open>lockInfo\<close>, and both compare-and-swap calls take the address of that local.
\<close>

definition sgt_writeValue_abort ::
  "'sg sgt_env \<Rightarrow> ('v, 'sg) sgt_state \<Rightarrow> 'v \<Rightarrow> ref \<Rightarrow> ref \<Rightarrow> ref \<Rightarrow> ref \<Rightarrow> u64 \<Rightarrow> u64
     \<Rightarrow> error + bool \<times> ('v, 'sg) sgt_state" where
  "sgt_writeValue_abort E s writeValue column lsn_column rw_table locked offset transaction =
     (if \<not> verify (ndebug E) (0 < transaction) then Inl AssertionFailed
      else
        let lockInfo = lockeds s locked offset;
            lockInfo = spin_lockInfo lockInfo
        in case column_replace (columns s) column offset writeValue of
          (old, cols) \<Rightarrow>
            let lockInfo = snd (sync_bool_compare_and_swap lockInfo 1 0)
            in Inr (True, s\<lparr>columns := cols\<rparr>))"

text \<open>
  Modelled from the spec: a write record's \<open>writeValue(tc)\<close>, of the missing
  \<open>transaction_information.hpp\<close>, re-invokes the coordinator's write path with
  \<open>abort = true\<close> to restore the old value. \<open>abort\<close> never calls it on a read record.
\<close>

fun sgt_info_writeValue ::
  "'sg sgt_env \<Rightarrow> 'v tx_info \<Rightarrow> ('v, 'sg) sgt_state \<Rightarrow> error + bool \<times> ('v, 'sg) sgt_state" where
  "sgt_info_writeValue E (WriteTransactionInformation n old c l lk rw p off tx ab) s =
     sgt_writeValue_abort E s old c l rw lk off tx"
| "sgt_info_writeValue E (ReadTransactionInformation rw lk p off tx) s = Inr (True, s)"

fun sgt_undo ::
  "'sg sgt_env \<Rightarrow> 'v tx_info list \<Rightarrow> ('v, 'sg) sgt_state \<Rightarrow> error + ('v, 'sg) sgt_state" where
  "sgt_undo E [] s = Inr s"
| "sgt_undo E (t # ts) s =
     (if \<not> isWriteTransaction t then sgt_undo E ts s
      else if isAbort t then sgt_undo E ts s
      else case sgt_info_writeValue E t s of
        Inl e \<Rightarrow> Inl e
      | Inr (r, s') \<Rightarrow> sgt_undo E ts s')"

fun sgt_release :: "'v tx_info list \<Rightarrow> ('v, 'sg) sgt_state \<Rightarrow> ('v, 'sg) sgt_state" where
  "sgt_release [] s = s"
| "sgt_release (t # ts) s = sgt_release ts (deleteFromRWTable t s)"

text \<open>
  \<open>abort(transaction)\<close>. As in the SS2PL coordinator, the empty \<open>atom_info\<close> stands for
  the list that \<open>atom_info_->~list()\<close> has destroyed, and a second walk over it before
  the next \<open>start\<close> is outside the model.
\<close>

definition sgt_abort ::
  "'sg sgt_env \<Rightarrow> ('v, 'sg) sgt_state \<Rightarrow> u64 \<Rightarrow> error + ('v, 'sg) sgt_state" where
  "sgt_abort E s transaction =
     (let s1 = s\<lparr>not_alive := insert transaction (not_alive s)\<rparr> in
      case sgt_undo E (atom_info s1) s1 of
        Inl e \<Rightarrow> Inl e
      | Inr s2 \<Rightarrow>
          (case sg_abort E (sg s2) (abort_transaction s2) of
             (g, ab) \<Rightarrow>
               let s3 = s2\<lparr>abort_transaction := ab, sg := g\<rparr>
               in Inr ((sgt_release (atom_info s3) s3)\<lparr>atom_info := []\<rparr>)))"

definition sgt_readValue ::
  "'sg sgt_env \<Rightarrow> ('v, 'sg) sgt_state \<Rightarrow> 'v \<Rightarrow> ref \<Rightarrow> ref \<Rightarrow> ref \<Rightarrow> ref \<Rightarrow> u64 \<Rightarrow> u64
     \<Rightarrow> error + bool \<times> 'v \<times> ('v, 'sg) sgt_state" where
  "sgt_readValue E s readValue column lsn_column rw_table locked offset transaction =
     (if \<not> verify (ndebug E) (0 < transaction) then Inl AssertionFailed
      else if transaction \<in> not_alive s then Inr (False, readValue, s)
      else if sg_needsAbort E (sg s) transaction then
        (case sgt_abort E s transaction of
           Inl e \<Rightarrow> Inl e
         | Inr s1 \<Rightarrow> Inr (False, readValue, s1))
      else
        let lockInfo = lockeds s locked offset;
            lockInfo = spin_lockInfo lockInfo;
            readValue = columns s column offset;
            lockInfo = snd (sync_bool_compare_and_swap lockInfo 1 0)
        in Inr (True, readValue, s))"

text \<open>\<open>read\<close> returns a \<open>uint64_t\<close>: \<open>false\<close> is 0 and \<open>true\<close> is 1.\<close>

definition sgt_read ::
  "'sg sgt_env \<Rightarrow> ('v, 'sg) sgt_state \<Rightarrow> ref \<Rightarrow> ref \<Rightarrow> ref \<Rightarrow> u64 \<Rightarrow> u64
     \<Rightarrow> error + u64 \<times> ('v, 'sg) sgt_state" where
  "sgt_read E s lsn_column rw_table locked offset transaction =
     (if \<not> verify (ndebug E) (0 < transaction) then Inl AssertionFailed
      else if transaction \<in> not_alive s then Inr (0, s)
      else if sg_needsAbort E (sg s) transaction then
        (case sgt_abort E s transaction of
           Inl e \<Rightarrow> Inl e
         | Inr s1 \<Rightarrow> Inr (0, s1))
      else
        let lockInfo = lockeds s locked offset;
            lockInfo = spin_lockInfo lockInfo;
            lockInfo = snd (sync_bool_compare_and_swap lockInfo 1 0)
        in Inr (1, s))"

definition sgt_readUndo ::
  "('v, 'sg) sgt_state \<Rightarrow> u64 \<Rightarrow> ref \<Rightarrow> ref \<Rightarrow> ref \<Rightarrow> u64 \<Rightarrow> u64 \<Rightarrow> ('v, 'sg) sgt_state" where
  "sgt_readUndo s prv lsn_column rw_table locked offset transaction =
     s\<lparr>lsn_columns := (lsn_columns s)(lsn_column := (lsn_columns s lsn_column)(offset := prv)),
       atom_info :=
         ReadTransactionInformation rw_table locked (prv - 1) offset transaction # atom_info s\<rparr>"

text \<open>
  \<open>writeValue\<close>, with its template flag \<open>abort\<close> as an argument. The ticket, the graph
  edges and the undo record are commented out in the source; what is left is below.
\<close>

definition sgt_writeValue ::
  "'sg sgt_env \<Rightarrow> bool \<Rightarrow> ('v, 'sg) sgt_state \<Rightarrow> 'v \<Rightarrow> ref \<Rightarrow> ref \<Rightarrow> ref \<Rightarrow> ref \<Rightarrow> u64 \<Rightarrow> u64
     \<Rightarrow> error + bool \<times> ('v, 'sg) sgt_state" where
  "sgt_writeValue E abort s writeValue column lsn_column rw_table locked offset transaction =
     (if \<not> verify (ndebug E) (0 < transaction) then Inl AssertionFailed
      else if \<not> abort \<and> transaction \<in> not_alive s then Inr (False, s)
      else if \<not> abort \<and> sg_needsAbort E (sg s) transaction then
        (case sgt_abort E s transaction of
           Inl e \<Rightarrow> Inl e
         | Inr s1 \<Rightarrow> Inr (False, s1))
      else
        let lockInfo = lockeds s locked offset;
            lockInfo = spin_lockInfo lockInfo
        in case column_replace (columns s) column offset writeValue of
          (old, cols) \<Rightarrow>
            let lockInfo = snd (sync_bool_compare_and_swap lockInfo 1 0)
            in Inr (True, s\<lparr>columns := cols\<rparr>))"

text \<open>
  \<open>commit\<close>: the \<open>while (!all_pending_transactions_commited)\<close> loop, entered with the
  flag's current value. The loop may spin for ever when it is entered with \<open>false\<close>, so
  its result is optional. The result is the returned flag, the state and the caller's
  \<open>oset\<close>.
\<close>

partial_function (option) sgt_commit_loop ::
  "'sg sgt_env \<Rightarrow> bool \<Rightarrow> ('v, 'sg) sgt_state \<Rightarrow> u64 \<Rightarrow> u64 set
     \<Rightarrow> (error + bool \<times> ('v, 'sg) sgt_state \<times> u64 set) option" where
  "sgt_commit_loop E all_pending_transactions_commited s transaction oset =
     (if \<not> all_pending_transactions_commited then
        (if transaction \<in> not_alive s then
           (let s1 = s\<lparr>not_alive := not_alive s - {transaction}\<rparr>
            in Some (Inr (False, s1, abort_transaction s1)))
         else if sg_needsAbort E (sg s) transaction then
           (case sgt_abort E s transaction of
              Inl e \<Rightarrow> Some (Inl e)
            | Inr s1 \<Rightarrow>
                let s2 = s1\<lparr>not_alive := not_alive s1 - {transaction}\<rparr>
                in Some (Inr (False, s2, abort_transaction s2)))
         else
           (case sg_checkCommited E (sg s) of
              (commited, g) \<Rightarrow>
                let s1 = s\<lparr>sg := g\<rparr>;
                    s2 = (if commited then sgt_release (atom_info s1) s1 else s1)
                in sgt_commit_loop E commited s2 transaction oset))
      else Some (Inr (True, s, oset)))"

definition sgt_commit ::
  "'sg sgt_env \<Rightarrow> ('v, 'sg) sgt_state \<Rightarrow> u64 \<Rightarrow> u64 set
     \<Rightarrow> (error + bool \<times> ('v, 'sg) sgt_state \<times> u64 set) option" where
  "sgt_commit E s transaction oset =
     (let all_pending_transactions_commited = True
      in sgt_commit_loop E all_pending_transactions_commited s transaction oset)"

section \<open>Example environments and states\<close>

text \<open>
  A lock manager whose state is the list of held locks \<open>(holder, offset)\<close>: every lock
  is exclusive, and a request is denied when another transaction holds the cell.
\<close>

definition exclusive_locks :: "(u64 \<times> u64) list twopl_env" where
  "exclusive_locks =
     \<lparr>ndebug = False,
      lm_lock = (\<lambda>lm transaction rw locking offset ab.
        if filter (\<lambda>h. snd h = offset \<and> fst h \<noteq> transaction) lm = []
        then (True, (transaction, offset) # lm, ab)
        else (False, lm, ab)),
      lm_unlock = (\<lambda>lm transaction locking offset. remove1 (transaction, offset) lm),
      lm_end = (\<lambda>lm transaction. filter (\<lambda>h. fst h \<noteq> transaction) lm)\<rparr>"

text \<open>A fresh table of zeros; \<open>twopl_held\<close> is the same with cell 0 locked by transaction 2.\<close>

definition twopl_fresh :: "(int, (u64 \<times> u64) list) twopl_state" where
  "twopl_fresh =
     \<lparr>columns = (\<lambda>column offset. 0), lsn_columns = (\<lambda>lsn_column offset. 0),
      rw_tables = (\<lambda>rw_table offset. []), not_alive = {}, abort_transaction = {},
      atom_info = [], lock_manager = []\<rparr>"

definition twopl_held :: "(int, (u64 \<times> u64) list) twopl_state" where
  "twopl_held = twopl_fresh\<lparr>lock_manager := [(2, 0)]\<rparr>"

definition twopl_dead :: "(int, (u64 \<times> u64) list) twopl_state" where
  "twopl_dead = twopl_fresh\<lparr>not_alive := {1}, abort_transaction := {2}\<rparr>"

text \<open>
  A serialization graph whose state is the set of transactions that need to abort; it
  cascades to nobody and reports every pending transaction as committed.
\<close>

definition marked_graph :: "u64 set sgt_env" where
  "marked_graph =
     \<lparr>ndebug = False,
      sg_needsAbort = (\<lambda>g transaction. transaction \<in> g),
      sg_abort = (\<lambda>g ab. (g, ab)),
      sg_checkCommited = (\<lambda>g. (True, g))\<rparr>"

definition sgt_fresh :: "(int, u64 set) sgt_state" where
  "sgt_fresh =
     \<lparr>columns = (\<lambda>column offset. 0), lsn_columns = (\<lambda>lsn_column offset. 0),
      rw_tables = (\<lambda>rw_table offset. []), not_alive = {}, abort_transaction = {},
      atom_info = [], lockeds = (\<lambda>locked offset. 0), sg = {}\<rparr>"

definition sgt_held :: "(int, u64 set) sgt_state" where
  "sgt_held = sgt_fresh\<lparr>lockeds := (\<lambda>locked offset. 1)\<rparr>"

definition sgt_dead :: "(int, u64 set) sgt_state" where
  "sgt_dead = sgt_fresh\<lparr>not_alive := {1}, abort_transaction := {2}\<rparr>"

text \<open>
  States in which transaction 1 has read cell 0 under ticket 3: the access record is in
  \<open>rw_table[0]\<close> and the undo record in \<open>atom_info\<close>. In \<open>twopl_logged\<close> transaction 2
  holds the lock of cell 1; in \<open>sgt_logged\<close> the node of transaction 1 needs to abort.
\<close>

definition twopl_logged :: "(int, (u64 \<times> u64) list) twopl_state" where
  "twopl_logged =
     twopl_fresh\<lparr>lsn_columns := (\<lambda>lsn_column offset. 4),
                 rw_tables := (\<lambda>rw_table offset. [(3, 1)]),
                 atom_info := [ReadTransactionInformation 0 0 3 0 1],
                 lock_manager := [(2, 1), (1, 0)]\<rparr>"

definition sgt_logged :: "(int, u64 set) sgt_state" where
  "sgt_logged =
     sgt_fresh\<lparr>lsn_columns := (\<lambda>lsn_column offset. 4),
               rw_tables := (\<lambda>rw_table offset. [(3, 1)]),
               atom_info := [ReadTransactionInformation 0 0 3 0 1],
               sg := {1}\<rparr>"

text \<open>The SS2PL state after transaction 1 has aborted.\<close>

definition twopl_logged_aborted :: "(int, (u64 \<times> u64) list) twopl_state" where
  "twopl_logged_aborted =
     twopl_logged\<lparr>rw_tables := (rw_tables twopl_logged)(0 := (rw_tables twopl_logged 0)(0 := [])),
                  not_alive := {1}, atom_info := [], lock_manager := [(2, 1)]\<rparr>"

text \<open>
  The fresh SS2PL table after transaction \<open>2^63\<close> has written 5 into cell 0. This id
  passes \<open>transaction > 0\<close>, while its read access record is 0.
\<close>

definition twopl_written_by_top :: "(int, (u64 \<times> u64) list) twopl_state" where
  "twopl_written_by_top =
     twopl_fresh\<lparr>columns := (columns twopl_fresh)(0 := (columns twopl_fresh 0)(0 := 5)),
                 atom_info :=
                   [WriteTransactionInformation 5 0 0 0 0 0 0 0 0x8000000000000000 False],
                 lock_manager := [(0x8000000000000000, 0)]\<rparr>"

section \<open>The access-record encoding\<close>

lemma and_low63: "(0x7FFFFFFFFFFFFFFF :: u64) AND w = take_bit 63 w"
proof -
  have "(0x7FFFFFFFFFFFFFFF :: u64) = mask 63"
    by (simp add: mask_eq_exp_minus_1)
  then show ?thesis
    by (simp add: take_bit_eq_mask and.commute)
qed

lemma take63_small: "tx < 2 ^ 63 \<Longrightarrow> take_bit 63 (tx :: u64) = tx"
  by (simp add: take_bit_eq_mask less_mask_eq)

lemma drop63_small: "tx < 2 ^ 63 \<Longrightarrow> drop_bit 63 (tx :: u64) = 0"
  using take63_small [of tx] by (simp add: take_bit_eq_self_iff_drop_bit_eq_0)

lemma take63_top: "take_bit 63 (0x8000000000000000 :: u64) = 0"
  by simp

lemma drop63_top: "drop_bit 63 (0x8000000000000000 :: u64) = 1"
  by simp

lemma take63_write: "tx < 2 ^ 63 \<Longrightarrow> take_bit 63 ((0x8000000000000000 :: u64) OR tx) = tx"
  by (simp only: take_bit_or take63_top take63_small or.left_neutral)

lemma drop63_write: "tx < 2 ^ 63 \<Longrightarrow> drop_bit 63 ((0x8000000000000000 :: u64) OR tx) = 1"
  by (simp only: drop_bit_or drop63_top drop63_small or.right_neutral)

text \<open>
  C10. For every transaction id \<open>tx < 2^63\<close> and every mode flag \<open>m\<close>,
  \<open>find(access(tx, m)) = (tx, m)\<close>: the encoding with the top bit as mode and the low 63
  bits as the transaction id is reversible.
\<close>

theorem find_access_inverse:
  "tx < 2 ^ 63 \<Longrightarrow> find_access (access tx m) = (tx, m)"
  by (simp add: find_access_def access_def and_low63 take63_write drop63_write
      take63_small drop63_small)

theorem find_access_inverse_witness:
  "(72057594037927941 :: u64) < 2 ^ 63
   \<and> find_access (access 72057594037927941 True) = (72057594037927941, True)
   \<and> find_access (access 72057594037927941 False) = (72057594037927941, False)"
  using find_access_inverse [of 72057594037927941 True]
    find_access_inverse [of 72057594037927941 False]
  by simp

section \<open>Operations of a transaction that is not alive\<close>

text \<open>
  C6. For every \<open>tx\<close> in \<open>not_alive\<close>, \<open>readValue\<close>, \<open>read\<close> and \<open>writeValue\<close> (with
  \<open>abort = false\<close>) of both coordinators return \<open>false\<close> (or 0) at once and leave the whole
  state as it was: the columns, \<open>rw_table\<close>, the lock state and the undo log \<open>atom_info\<close>.
  The transaction id passes the entry assertion \<open>transaction > 0\<close> (or the build has
  none).
\<close>

theorem not_alive_operations_fail_unchanged:
  assumes "transaction \<in> not_alive s" and "transaction \<in> not_alive g"
    and "ndebug E \<or> 0 < transaction" and "ndebug G \<or> 0 < transaction"
  shows "twopl_readValue E s rv c l rw lk off transaction = Inr (False, rv, s)
       \<and> twopl_read E s l rw lk off transaction = Inr (0, s)
       \<and> twopl_writeValue E False s v c l rw lk off transaction = Inr (False, s)
       \<and> sgt_readValue G g rv c l rw lk off transaction = Inr (False, rv, g)
       \<and> sgt_read G g l rw lk off transaction = Inr (0, g)
       \<and> sgt_writeValue G False g v c l rw lk off transaction = Inr (False, g)"
  using assms
  by (simp add: twopl_readValue_def twopl_read_def twopl_writeValue_def
      sgt_readValue_def sgt_read_def sgt_writeValue_def verify_def)

theorem not_alive_operations_fail_unchanged_witness:
  "(1 :: u64) \<in> not_alive twopl_dead \<and> 1 \<in> not_alive sgt_dead
   \<and> twopl_readValue exclusive_locks twopl_dead 7 0 0 0 0 0 1 = Inr (False, 7, twopl_dead)
   \<and> twopl_read exclusive_locks twopl_dead 0 0 0 0 1 = Inr (0, twopl_dead)
   \<and> twopl_writeValue exclusive_locks False twopl_dead 5 0 0 0 0 0 1 = Inr (False, twopl_dead)
   \<and> sgt_readValue marked_graph sgt_dead 7 0 0 0 0 0 1 = Inr (False, 7, sgt_dead)
   \<and> sgt_read marked_graph sgt_dead 0 0 0 0 1 = Inr (0, sgt_dead)
   \<and> sgt_writeValue marked_graph False sgt_dead 5 0 0 0 0 0 1 = Inr (False, sgt_dead)"
  using not_alive_operations_fail_unchanged
    [of 1 twopl_dead sgt_dead exclusive_locks marked_graph 7 0 0 0 0 0 5]
  by (simp add: twopl_dead_def sgt_dead_def)

section \<open>The spin loop on the local lock word\<close>

text \<open>
  The loop ends after at most two tests: a zero becomes one, any other value stays.
\<close>

declare spin_lockInfo.simps [simp del]

lemma spin_lockInfo_value: "spin_lockInfo l = (if l = 0 then 1 else l)"
  by (simp add: spin_lockInfo.simps sync_bool_compare_and_swap_def)

section \<open>writeValue with the abort flag\<close>

lemma twopl_writeValue_True:
  "twopl_writeValue E True s v c l rw lk off tx = twopl_writeValue_abort E s v c l rw lk off tx"
  by (simp add: twopl_writeValue_def twopl_writeValue_abort_def)

lemma sgt_writeValue_True:
  "sgt_writeValue E True s v c l rw lk off tx = sgt_writeValue_abort E s v c l rw lk off tx"
  by (simp add: sgt_writeValue_def sgt_writeValue_abort_def)

text \<open>
  C7. In both coordinators \<open>writeValue\<close> instantiated with \<open>abort = true\<close> returns \<open>true\<close>
  and replaces \<open>column[offset]\<close> with the new value; it makes no \<open>not_alive\<close> or conflict
  check and appends no undo record, and nothing of the state but the column cell changes.
  The transaction id passes the entry assertion \<open>transaction > 0\<close> (or the build has
  none).
\<close>

theorem writeValue_abort_flag_only_swaps:
  assumes "ndebug E \<or> 0 < transaction" and "ndebug G \<or> 0 < transaction"
  shows "twopl_writeValue E True s v c l rw lk off transaction =
           Inr (True, s\<lparr>columns := (columns s)(c := (columns s c)(off := v))\<rparr>)
       \<and> sgt_writeValue G True g v c l rw lk off transaction =
           Inr (True, g\<lparr>columns := (columns g)(c := (columns g c)(off := v))\<rparr>)"
  using assms
  by (simp add: twopl_writeValue_def sgt_writeValue_def verify_def column_replace_def)

theorem writeValue_abort_flag_only_swaps_witness:
  "twopl_writeValue exclusive_locks True twopl_dead 5 0 0 0 0 0 1 =
     Inr (True, twopl_dead\<lparr>columns := (columns twopl_dead)(0 := (columns twopl_dead 0)(0 := 5))\<rparr>)
   \<and> sgt_writeValue marked_graph True sgt_dead 5 0 0 0 0 0 1 =
     Inr (True, sgt_dead\<lparr>columns := (columns sgt_dead)(0 := (columns sgt_dead 0)(0 := 5))\<rparr>)"
  using writeValue_abort_flag_only_swaps [of exclusive_locks 1 marked_graph twopl_dead 5 0 0 0 0 0 sgt_dead]
  by simp

section \<open>SS2PL: lock grant and lock denial\<close>

text \<open>
  C8. In the SS2PL coordinator, for \<open>readValue\<close> and \<open>writeValue\<close> of a transaction that
  is alive: when \<open>lock_manager_.lock\<close> grants the request, an undo entry recording the
  access is prepended to \<open>atom_info\<close> and the operation returns \<open>true\<close>; when it denies
  the request, the coordinator calls \<open>abort(tx)\<close> and returns \<open>false\<close>.
\<close>

theorem twopl_lock_grant_records_denial_aborts:
  assumes "ndebug E \<or> 0 < transaction" and "ndebug E \<or> 0 < access transaction False"
    and "transaction \<notin> not_alive s"
    and "lm_lock E (lock_manager s) transaction False lk off (abort_transaction s) = (granted_r, lm_r, ab_r)"
    and "lm_lock E (lock_manager s) transaction True lk off (abort_transaction s) = (granted_w, lm_w, ab_w)"
  shows "twopl_readValue E s rv c l rw lk off transaction =
           (if granted_r then
              Inr (True, columns s c off,
                s\<lparr>abort_transaction := ab_r, lock_manager := lm_r,
                  atom_info := ReadTransactionInformation rw lk 0 off transaction # atom_info s\<rparr>)
            else map_sum id (\<lambda>s'. (False, rv, s'))
                   (twopl_abort E (s\<lparr>abort_transaction := ab_r, lock_manager := lm_r\<rparr>) transaction))
       \<and> twopl_writeValue E False s v c l rw lk off transaction =
           (if granted_w then
              Inr (True,
                s\<lparr>abort_transaction := ab_w, lock_manager := lm_w,
                  columns := (columns s)(c := (columns s c)(off := v)),
                  atom_info := WriteTransactionInformation v (columns s c off) c l lk rw 0 off
                                 transaction False # atom_info s\<rparr>)
            else map_sum id (\<lambda>s'. (False, s'))
                   (twopl_abort E (s\<lparr>abort_transaction := ab_w, lock_manager := lm_w\<rparr>) transaction))"
proof -
  have r: "twopl_readValue E s rv c l rw lk off transaction =
           (if granted_r then
              Inr (True, columns s c off,
                s\<lparr>abort_transaction := ab_r, lock_manager := lm_r,
                  atom_info := ReadTransactionInformation rw lk 0 off transaction # atom_info s\<rparr>)
            else map_sum id (\<lambda>s'. (False, rv, s'))
                   (twopl_abort E (s\<lparr>abort_transaction := ab_r, lock_manager := lm_r\<rparr>) transaction))"
    using assms(1-4)
    by (auto simp: twopl_readValue_def verify_def Let_def split: sum.splits)
  have w: "twopl_writeValue E False s v c l rw lk off transaction =
           (if granted_w then
              Inr (True,
                s\<lparr>abort_transaction := ab_w, lock_manager := lm_w,
                  columns := (columns s)(c := (columns s c)(off := v)),
                  atom_info := WriteTransactionInformation v (columns s c off) c l lk rw 0 off
                                 transaction False # atom_info s\<rparr>)
            else map_sum id (\<lambda>s'. (False, s'))
                   (twopl_abort E (s\<lparr>abort_transaction := ab_w, lock_manager := lm_w\<rparr>) transaction))"
    using assms(1,3,5)
    by (simp add: twopl_writeValue_def verify_def column_replace_def split: sum.splits)
  from r w show ?thesis by simp
qed

theorem twopl_lock_grant_records_denial_aborts_witness:
  "twopl_readValue exclusive_locks twopl_fresh 7 0 0 0 0 0 1 =
     Inr (True, 0, twopl_fresh\<lparr>atom_info := [ReadTransactionInformation 0 0 0 0 1],
                                lock_manager := [(1, 0)]\<rparr>)
   \<and> twopl_writeValue exclusive_locks False twopl_fresh 5 0 0 0 0 0 1 =
     Inr (True, twopl_fresh\<lparr>columns := (columns twopl_fresh)(0 := (columns twopl_fresh 0)(0 := 5)),
                             atom_info := [WriteTransactionInformation 5 0 0 0 0 0 0 0 1 False],
                             lock_manager := [(1, 0)]\<rparr>)
   \<and> twopl_readValue exclusive_locks twopl_held 7 0 0 0 0 0 1 =
     Inr (False, 7, twopl_held\<lparr>not_alive := {1}\<rparr>)
   \<and> twopl_writeValue exclusive_locks False twopl_held 5 0 0 0 0 0 1 =
     Inr (False, twopl_held\<lparr>not_alive := {1}\<rparr>)"
  using twopl_lock_grant_records_denial_aborts
      [where E = exclusive_locks and s = twopl_fresh and transaction = 1 and lk = 0 and off = 0
         and granted_r = True and lm_r = "[(1, 0)]" and ab_r = "{}"
         and granted_w = True and lm_w = "[(1, 0)]" and ab_w = "{}"
         and rv = 7 and v = 5 and c = 0 and l = 0 and rw = 0]
    twopl_lock_grant_records_denial_aborts
      [where E = exclusive_locks and s = twopl_held and transaction = 1 and lk = 0 and off = 0
         and granted_r = False and lm_r = "[(2, 0)]" and ab_r = "{}"
         and granted_w = False and lm_w = "[(2, 0)]" and ab_w = "{}"
         and rv = 7 and v = 5 and c = 0 and l = 0 and rw = 0]
  by (simp add: exclusive_locks_def twopl_fresh_def twopl_held_def access_def twopl_abort_def)

section \<open>SGT commit\<close>

text \<open>
  C4. In the SGT coordinator \<open>commit(tx, oset)\<close> returns \<open>true\<close> for every transaction and
  every state, also when \<open>tx\<close> is in \<open>not_alive\<close> or its graph node needs to abort: the
  loop's guard variable starts as \<open>true\<close>, so the loop body never runs, and \<open>commit\<close>
  leaves \<open>oset\<close>, \<open>not_alive\<close>, \<open>rw_table\<close> and the undo records as they were.
\<close>

theorem sgt_commit_always_true:
  "sgt_commit E s transaction oset = Some (Inr (True, s, oset))"
  by (simp add: sgt_commit_def sgt_commit_loop.simps)

text \<open>The SS2PL \<open>commit\<close> of a transaction that is not alive.\<close>

lemma twopl_commit_not_alive:
  "transaction \<in> not_alive s \<Longrightarrow>
   twopl_commit E s transaction oset =
     (False,
      s\<lparr>not_alive := not_alive s - {transaction},
        lock_manager := lm_end E (lock_manager s) transaction\<rparr>,
      abort_transaction s)"
  by (simp add: twopl_commit_def)

text \<open>
  The body of the SGT loop, were it entered, would do the same: entered with the guard
  \<open>false\<close> for a transaction that is not alive, it removes the transaction from
  \<open>not_alive\<close>, hands out \<open>abort_transaction\<close> and returns \<open>false\<close>.
\<close>

lemma sgt_commit_loop_entered_not_alive:
  "transaction \<in> not_alive s \<Longrightarrow>
   sgt_commit_loop E False s transaction oset =
     Some (Inr (False, s\<lparr>not_alive := not_alive s - {transaction}\<rparr>, abort_transaction s))"
  by (subst sgt_commit_loop.simps) simp

text \<open>
  C1. For both coordinators, \<open>commit(tx, oset)\<close> of a \<open>tx\<close> in \<open>not_alive\<close> should remove
  \<open>tx\<close> from \<open>not_alive\<close>, assign \<open>abort_transaction\<close> to \<open>oset\<close> and return \<open>false\<close>. With
  \<open>not_alive = {1}\<close> and \<open>abort_transaction = {2}\<close> the SGT coordinator returns \<open>true\<close> and
  changes nothing, while the SS2PL coordinator does all three.
\<close>

theorem sgt_commit_of_dead_transaction:
  "1 \<in> not_alive sgt_dead
   \<and> sgt_commit marked_graph sgt_dead 1 {} = Some (Inr (True, sgt_dead, {}))
   \<and> twopl_commit exclusive_locks twopl_dead 1 {} = (False, twopl_dead\<lparr>not_alive := {}\<rparr>, {2})"
  by (simp add: sgt_commit_def sgt_commit_loop.simps sgt_dead_def twopl_commit_def twopl_dead_def
      twopl_fresh_def exclusive_locks_def)

section \<open>The SGT lock word\<close>

text \<open>
  C5. In the SGT coordinator \<open>readValue\<close>, \<open>read\<close> and \<open>writeValue\<close> should take the
  per-cell spin lock by changing \<open>locked[offset]\<close> from 0 to 1 before they access the
  cell, and set it back to 0 before they return. With \<open>locked[0] = 1\<close>, the word of a lock
  that is held, each of the three operations goes through at once, reads or writes the
  cell and leaves \<open>locked[0]\<close> at 1: the swaps work on the local copy \<open>lockInfo\<close>.
\<close>

theorem sgt_lock_word_never_written:
  "lockeds sgt_held 0 0 = 1
   \<and> sgt_readValue marked_graph sgt_held 7 0 0 0 0 0 1 = Inr (True, 0, sgt_held)
   \<and> sgt_read marked_graph sgt_held 0 0 0 0 1 = Inr (1, sgt_held)
   \<and> sgt_writeValue marked_graph False sgt_held 5 0 0 0 0 0 1 =
       Inr (True, sgt_held\<lparr>columns := (columns sgt_held)(0 := (columns sgt_held 0)(0 := 5))\<rparr>)"
  by (simp add: sgt_readValue_def sgt_read_def sgt_writeValue_def sgt_held_def sgt_fresh_def
      marked_graph_def verify_def column_replace_def)

section \<open>Abort and the written cells\<close>

lemma fun_upd_const_same: "(\<lambda>x. k)(a := k) = (\<lambda>x. k)"
  by (simp add: fun_eq_iff)

text \<open>
  C3. After \<open>abort(T)\<close> returns, every cell that \<open>T\<close> wrote should hold the value it held
  just before \<open>T\<close>'s write (in a run of a single transaction). In the SGT coordinator a
  transaction that writes 5 into a cell holding 0 and then aborts leaves 5 in the cell:
  \<open>writeValue\<close> records no undo entry, so \<open>abort\<close> finds nothing to restore. The
  SS2PL coordinator, on the same run, puts the 0 back.
\<close>

theorem sgt_abort_keeps_written_value:
  "columns sgt_fresh 0 0 = 0
   \<and> sgt_writeValue marked_graph False sgt_fresh 5 0 0 0 0 0 1 =
       Inr (True, sgt_fresh\<lparr>columns := (columns sgt_fresh)(0 := (columns sgt_fresh 0)(0 := 5))\<rparr>)
   \<and> sgt_abort marked_graph
         (sgt_fresh\<lparr>columns := (columns sgt_fresh)(0 := (columns sgt_fresh 0)(0 := 5))\<rparr>) 1 =
       Inr (sgt_fresh\<lparr>columns := (columns sgt_fresh)(0 := (columns sgt_fresh 0)(0 := 5)),
                      not_alive := {1}\<rparr>)
   \<and> columns (sgt_fresh\<lparr>columns := (columns sgt_fresh)(0 := (columns sgt_fresh 0)(0 := 5)),
                        not_alive := {1}\<rparr>) 0 0 = 5
   \<and> columns twopl_fresh 0 0 = 0
   \<and> twopl_writeValue exclusive_locks False twopl_fresh 5 0 0 0 0 0 1 =
       Inr (True, twopl_fresh\<lparr>columns := (columns twopl_fresh)(0 := (columns twopl_fresh 0)(0 := 5)),
                               atom_info := [WriteTransactionInformation 5 0 0 0 0 0 0 0 1 False],
                               lock_manager := [(1, 0)]\<rparr>)
   \<and> twopl_abort exclusive_locks
         (twopl_fresh\<lparr>columns := (columns twopl_fresh)(0 := (columns twopl_fresh 0)(0 := 5)),
                       atom_info := [WriteTransactionInformation 5 0 0 0 0 0 0 0 1 False],
                       lock_manager := [(1, 0)]\<rparr>) 1 =
       Inr (twopl_fresh\<lparr>not_alive := {1}\<rparr>)"
  by (simp add: sgt_writeValue_def sgt_abort_def sgt_fresh_def marked_graph_def verify_def
      column_replace_def twopl_writeValue_def twopl_abort_def twopl_fresh_def exclusive_locks_def
      twopl_writeValue_abort_def twopl_info_unlock_def deleteFromRWTable_def erase_def
      fun_upd_const_same)


section \<open>read and readValue\<close>

text \<open>
  C9. \<open>read\<close> succeeds (returns nonzero) exactly when \<open>readValue\<close> on the same cell and
  transaction succeeds, and \<open>readValue\<close> returns the cell's value where \<open>read\<close> returns
  none. In the SGT coordinator both leave the same state. In the SS2PL coordinator both
  leave the same \<open>not_alive\<close>, \<open>abort_transaction\<close> and locks, and a successful \<open>readValue\<close>
  also prepends the read undo record that \<open>read\<close> leaves to \<open>readUndo\<close>: \<open>readValue\<close> is
  \<open>read\<close> followed, on success, by \<open>readUndo\<close>.
\<close>

theorem read_agrees_with_readValue_up_to_undo_record:
  "map_sum id (\<lambda>(r, s'). (r \<noteq> 0, if r \<noteq> 0 then columns s' c off else rv,
                              if r \<noteq> 0 then twopl_readUndo s' 0 l rw lk off transaction else s'))
       (twopl_read E s l rw lk off transaction)
     = twopl_readValue E s rv c l rw lk off transaction
   \<and> map_sum id (\<lambda>(r, g'). (r \<noteq> 0, if r \<noteq> 0 then columns g' c off else rv, g'))
       (sgt_read G g l rw lk off transaction)
     = sgt_readValue G g rv c l rw lk off transaction"
proof -
  have a: "map_sum id (\<lambda>(r, s'). (r \<noteq> 0, if r \<noteq> 0 then columns s' c off else rv,
                              if r \<noteq> 0 then twopl_readUndo s' 0 l rw lk off transaction else s'))
       (twopl_read E s l rw lk off transaction)
     = twopl_readValue E s rv c l rw lk off transaction"
    by (simp add: twopl_read_def twopl_readValue_def twopl_readUndo_def Let_def
        split: sum.splits prod.splits)
  have b: "map_sum id (\<lambda>(r, g'). (r \<noteq> 0, if r \<noteq> 0 then columns g' c off else rv, g'))
       (sgt_read G g l rw lk off transaction)
     = sgt_readValue G g rv c l rw lk off transaction"
    by (simp add: sgt_read_def sgt_readValue_def Let_def split: sum.splits)
  from a b show ?thesis by simp
qed

text \<open>
  The specification's wording, that \<open>read\<close> and \<open>readValue\<close> leave \<open>atom_info\<close> identical,
  fails in the SS2PL coordinator on a fresh table.
\<close>

theorem read_leaves_no_undo_record:
  "map_sum id (atom_info \<circ> snd) (twopl_read exclusive_locks twopl_fresh 0 0 0 0 1) = Inr []
   \<and> map_sum id (atom_info \<circ> snd \<circ> snd) (twopl_readValue exclusive_locks twopl_fresh 7 0 0 0 0 0 1)
       = Inr [ReadTransactionInformation 0 0 0 0 1]"
  by (simp add: twopl_read_def twopl_readValue_def twopl_fresh_def exclusive_locks_def verify_def access_def)

section \<open>What abort changes\<close>

lemma twopl_info_writeValue_columns_only:
  "twopl_info_writeValue E t s = Inr (r, s') \<Longrightarrow> s' = s\<lparr>columns := columns s'\<rparr>"
  by (cases t) (auto simp: twopl_writeValue_abort_def column_replace_def split: if_splits)

lemma twopl_undo_columns_only:
  "twopl_undo E ts s = Inr s' \<Longrightarrow> s' = s\<lparr>columns := columns s'\<rparr>"
proof (induction ts arbitrary: s)
  case Nil
  then show ?case by simp
next
  case (Cons t ts)
  show ?case
  proof (cases "isWriteTransaction t \<and> \<not> isAbort t")
    case False
    with Cons show ?thesis by (auto split: if_splits)
  next
    case True
    with Cons.prems obtain r s1 where
      w: "twopl_info_writeValue E t s = Inr (r, s1)" and u: "twopl_undo E ts s1 = Inr s'"
      by (auto split: sum.splits)
    from w have "s1 = s\<lparr>columns := columns s1\<rparr>"
      by (rule twopl_info_writeValue_columns_only)
    moreover from u have "s' = s1\<lparr>columns := columns s'\<rparr>"
      by (rule Cons.IH)
    ultimately have "s' = (s\<lparr>columns := columns s1\<rparr>)\<lparr>columns := columns s'\<rparr>"
      by simp
    then show ?thesis by simp
  qed
qed

lemma deleteFromRWTable_subseq:
  "subseq (rw_tables (deleteFromRWTable t s) c off) (rw_tables s c off)"
  by (simp add: deleteFromRWTable_def erase_def)

lemma deleteFromRWTable_rest:
  "columns (deleteFromRWTable t s) = columns s"
  "lsn_columns (deleteFromRWTable t s) = lsn_columns s"
  "not_alive (deleteFromRWTable t s) = not_alive s"
  "abort_transaction (deleteFromRWTable t s) = abort_transaction s"
  "atom_info (deleteFromRWTable t s) = atom_info s"
  by (simp_all add: deleteFromRWTable_def)

lemma twopl_release_rest:
  "columns (twopl_release E ts s) = columns s
   \<and> lsn_columns (twopl_release E ts s) = lsn_columns s
   \<and> not_alive (twopl_release E ts s) = not_alive s
   \<and> abort_transaction (twopl_release E ts s) = abort_transaction s
   \<and> atom_info (twopl_release E ts s) = atom_info s"
  by (induction ts arbitrary: s) (simp_all add: deleteFromRWTable_rest twopl_info_unlock_def)

lemma twopl_release_subseq:
  "subseq (rw_tables (twopl_release E ts s) c off) (rw_tables s c off)"
proof (induction ts arbitrary: s)
  case Nil
  then show ?case by simp
next
  case (Cons t ts)
  have "subseq (rw_tables (twopl_release E ts (deleteFromRWTable t (twopl_info_unlock E t s))) c off)
          (rw_tables (deleteFromRWTable t (twopl_info_unlock E t s)) c off)"
    by (rule Cons.IH)
  also have "subseq (rw_tables (deleteFromRWTable t (twopl_info_unlock E t s)) c off)
          (rw_tables (twopl_info_unlock E t s) c off)"
    by (rule deleteFromRWTable_subseq)
  finally show ?case by (simp add: twopl_info_unlock_def)
qed

lemma twopl_abort_effect:
  assumes "twopl_abort E s transaction = Inr s'"
  shows "lsn_columns s' = lsn_columns s" and "subseq (rw_tables s' c off) (rw_tables s c off)"
    and "not_alive s' = insert transaction (not_alive s)" and "atom_info s' = []"
    and "abort_transaction s' = abort_transaction s"
proof -
  let ?s1 = "s\<lparr>not_alive := insert transaction (not_alive s)\<rparr>"
  from assms obtain s2 where
    u: "twopl_undo E (atom_info ?s1) ?s1 = Inr s2"
    and s': "s' = (twopl_release E (atom_info s2) s2)\<lparr>atom_info := []\<rparr>"
    by (auto simp: twopl_abort_def Let_def split: sum.splits)
  from u have s2: "s2 = ?s1\<lparr>columns := columns s2\<rparr>"
    by (rule twopl_undo_columns_only)
  have l2: "lsn_columns s2 = lsn_columns s" by (subst s2) simp
  have r2: "rw_tables s2 = rw_tables s" by (subst s2) simp
  have n2: "not_alive s2 = insert transaction (not_alive s)" by (subst s2) simp
  have a2: "abort_transaction s2 = abort_transaction s" by (subst s2) simp
  show "lsn_columns s' = lsn_columns s" by (simp add: s' twopl_release_rest l2)
  show "not_alive s' = insert transaction (not_alive s)" by (simp add: s' twopl_release_rest n2)
  show "abort_transaction s' = abort_transaction s" by (simp add: s' twopl_release_rest a2)
  show "atom_info s' = []" by (simp add: s')
  have "subseq (rw_tables (twopl_release E (atom_info s2) s2) c off) (rw_tables s2 c off)"
    by (rule twopl_release_subseq)
  then show "subseq (rw_tables s' c off) (rw_tables s c off)" by (simp add: s' r2)
qed


text \<open>
  In the SS2PL coordinator a first write followed by \<open>abort\<close> leaves every column as
  it was before the write.
\<close>

lemma twopl_abort_restores_write:
  assumes "atom_info s = []"
    and "twopl_writeValue E False s v c l rw lk off tx = Inr (True, s1)"
    and "twopl_abort E s1 tx = Inr s2"
  shows "columns s2 = columns s"
proof -
  from assms(2) obtain lm ab where
    s1: "s1 = s\<lparr>abort_transaction := ab, lock_manager := lm,
              columns := (columns s)(c := (columns s c)(off := v)),
              atom_info := [WriteTransactionInformation v (columns s c off) c l lk rw 0 off tx False]\<rparr>"
    and tx: "verify (ndebug E) (0 < tx)"
    using assms(1)
    by (auto simp: twopl_writeValue_def column_replace_def Let_def
        split: if_splits prod.splits sum.splits)
  from assms(3) tx show ?thesis
    by (auto simp: s1 twopl_abort_def twopl_writeValue_abort_def column_replace_def
        twopl_release_rest deleteFromRWTable_rest twopl_info_unlock_def)
qed

lemma sgt_info_writeValue_columns_only:
  "sgt_info_writeValue E t s = Inr (r, s') \<Longrightarrow> s' = s\<lparr>columns := columns s'\<rparr>"
  by (cases t) (auto simp: sgt_writeValue_abort_def column_replace_def split: if_splits)

lemma sgt_undo_columns_only:
  "sgt_undo E ts s = Inr s' \<Longrightarrow> s' = s\<lparr>columns := columns s'\<rparr>"
proof (induction ts arbitrary: s)
  case Nil
  then show ?case by simp
next
  case (Cons t ts)
  show ?case
  proof (cases "isWriteTransaction t \<and> \<not> isAbort t")
    case False
    with Cons show ?thesis by (auto split: if_splits)
  next
    case True
    with Cons.prems obtain r s1 where
      w: "sgt_info_writeValue E t s = Inr (r, s1)" and u: "sgt_undo E ts s1 = Inr s'"
      by (auto split: sum.splits)
    from w have "s1 = s\<lparr>columns := columns s1\<rparr>"
      by (rule sgt_info_writeValue_columns_only)
    moreover from u have "s' = s1\<lparr>columns := columns s'\<rparr>"
      by (rule Cons.IH)
    ultimately have "s' = (s\<lparr>columns := columns s1\<rparr>)\<lparr>columns := columns s'\<rparr>"
      by simp
    then show ?thesis by simp
  qed
qed

lemma sgt_release_rest:
  "columns (sgt_release ts s) = columns s
   \<and> lsn_columns (sgt_release ts s) = lsn_columns s
   \<and> not_alive (sgt_release ts s) = not_alive s
   \<and> abort_transaction (sgt_release ts s) = abort_transaction s
   \<and> atom_info (sgt_release ts s) = atom_info s
   \<and> lockeds (sgt_release ts s) = lockeds s"
  by (induction ts arbitrary: s) (simp_all add: deleteFromRWTable_rest deleteFromRWTable_def)

lemma sgt_release_subseq:
  "subseq (rw_tables (sgt_release ts s) c off) (rw_tables s c off)"
proof (induction ts arbitrary: s)
  case Nil
  then show ?case by simp
next
  case (Cons t ts)
  have "subseq (rw_tables (sgt_release ts (deleteFromRWTable t s)) c off)
          (rw_tables (deleteFromRWTable t s) c off)"
    by (rule Cons.IH)
  also have "subseq (rw_tables (deleteFromRWTable t s) c off) (rw_tables s c off)"
    by (rule deleteFromRWTable_subseq)
  finally show ?case by simp
qed

lemma sgt_abort_effect:
  assumes "sgt_abort E s transaction = Inr s'"
  shows "lsn_columns s' = lsn_columns s" and "subseq (rw_tables s' c off) (rw_tables s c off)"
    and "not_alive s' = insert transaction (not_alive s)" and "atom_info s' = []"
    and "lockeds s' = lockeds s"
proof -
  let ?s1 = "s\<lparr>not_alive := insert transaction (not_alive s)\<rparr>"
  from assms obtain s2 g ab where
    u: "sgt_undo E (atom_info ?s1) ?s1 = Inr s2"
    and s': "s' = (sgt_release (atom_info s2) (s2\<lparr>abort_transaction := ab, sg := g\<rparr>))\<lparr>atom_info := []\<rparr>"
    by (auto simp: sgt_abort_def Let_def split: sum.splits prod.splits)
  from u have s2: "s2 = ?s1\<lparr>columns := columns s2\<rparr>"
    by (rule sgt_undo_columns_only)
  have l2: "lsn_columns s2 = lsn_columns s" by (subst s2) simp
  have r2: "rw_tables s2 = rw_tables s" by (subst s2) simp
  have n2: "not_alive s2 = insert transaction (not_alive s)" by (subst s2) simp
  have k2: "lockeds s2 = lockeds s" by (subst s2) simp
  show "lsn_columns s' = lsn_columns s" by (simp add: s' sgt_release_rest l2)
  show "not_alive s' = insert transaction (not_alive s)" by (simp add: s' sgt_release_rest n2)
  show "lockeds s' = lockeds s" by (simp add: s' sgt_release_rest k2)
  show "atom_info s' = []" by (simp add: s')
  have "subseq (rw_tables (sgt_release (atom_info s2) (s2\<lparr>abort_transaction := ab, sg := g\<rparr>)) c off)
          (rw_tables (s2\<lparr>abort_transaction := ab, sg := g\<rparr>) c off)"
    by (rule sgt_release_subseq)
  then show "subseq (rw_tables s' c off) (rw_tables s c off)" by (simp add: s' r2)
qed

text \<open>No SGT operation writes to a \<open>locked\<close> vector.\<close>

lemma sgt_operations_keep_lockeds:
  "sgt_readValue E s rv c l rw lk off tx = Inr (ok, v', s') \<Longrightarrow> lockeds s' = lockeds s"
  "sgt_read E s l rw lk off tx = Inr (r, s') \<Longrightarrow> lockeds s' = lockeds s"
  "sgt_writeValue E ab s v c l rw lk off tx = Inr (ok, s') \<Longrightarrow> lockeds s' = lockeds s"
  by (auto simp: sgt_readValue_def sgt_read_def sgt_writeValue_def Let_def column_replace_def
      split: if_splits prod.splits sum.splits dest: sgt_abort_effect(5))

section \<open>Tickets\<close>

lemma twopl_readValue_no_ticket:
  assumes "twopl_readValue E s rv c l rw lk off tx = Inr (ok, v', s')"
  shows "lsn_columns s' = lsn_columns s \<and> (ok \<longrightarrow> rw_tables s' = rw_tables s)
       \<and> (\<forall>c' off'. subseq (rw_tables s' c' off') (rw_tables s c' off'))"
  using assms
  by (auto simp: twopl_readValue_def Let_def split: if_splits prod.splits sum.splits
      dest: twopl_abort_effect(1) twopl_abort_effect(2))

lemma twopl_writeValue_no_ticket:
  assumes "twopl_writeValue E ab s v c l rw lk off tx = Inr (ok, s')"
  shows "lsn_columns s' = lsn_columns s \<and> (ok \<longrightarrow> rw_tables s' = rw_tables s)
       \<and> (\<forall>c' off'. subseq (rw_tables s' c' off') (rw_tables s c' off'))"
  using assms
  by (auto simp: twopl_writeValue_def Let_def split: if_splits prod.splits sum.splits
      dest: twopl_abort_effect(1) twopl_abort_effect(2))

text \<open>
  C2. The SS2PL coordinator's \<open>readValue\<close> and \<open>writeValue\<close> take no ticket: neither
  pushes an access record onto \<open>rw_table[c]\<close> and neither stores into \<open>lsn[c]\<close>. Each of
  the two operations, whenever it returns, leaves \<open>lsn\<close> as it was; when it returns
  \<open>true\<close> it leaves \<open>rw_table\<close> as it was, and when it ends by aborting each \<open>rw_table\<close>
  list can only lose entries, those that \<open>abort\<close> erases for the undo records.
\<close>

theorem twopl_operations_take_no_ticket:
  "(\<forall>ok v1 s1. twopl_readValue E s rv c l rw lk off tx = Inr (ok, v1, s1) \<longrightarrow>
      lsn_columns s1 = lsn_columns s \<and> (ok \<longrightarrow> rw_tables s1 = rw_tables s)
      \<and> (\<forall>c' off'. subseq (rw_tables s1 c' off') (rw_tables s c' off')))
   \<and> (\<forall>ok s2. twopl_writeValue E ab s v c l rw lk off tx = Inr (ok, s2) \<longrightarrow>
      lsn_columns s2 = lsn_columns s \<and> (ok \<longrightarrow> rw_tables s2 = rw_tables s)
      \<and> (\<forall>c' off'. subseq (rw_tables s2 c' off') (rw_tables s c' off')))"
proof -
  have r: "\<forall>ok v1 s1. twopl_readValue E s rv c l rw lk off tx = Inr (ok, v1, s1) \<longrightarrow>
      lsn_columns s1 = lsn_columns s \<and> (ok \<longrightarrow> rw_tables s1 = rw_tables s)
      \<and> (\<forall>c' off'. subseq (rw_tables s1 c' off') (rw_tables s c' off'))"
    using twopl_readValue_no_ticket [of E s rv c l rw lk off tx] by blast
  have w: "\<forall>ok s2. twopl_writeValue E ab s v c l rw lk off tx = Inr (ok, s2) \<longrightarrow>
      lsn_columns s2 = lsn_columns s \<and> (ok \<longrightarrow> rw_tables s2 = rw_tables s)
      \<and> (\<forall>c' off'. subseq (rw_tables s2 c' off') (rw_tables s c' off'))"
    using twopl_writeValue_no_ticket [of E ab s v c l rw lk off tx] by blast
  from r w show ?thesis by (rule conjI)
qed

text \<open>
  The theorem at work: a read and a write that are denied and abort (the undone read's
  ticket 3 leaves \<open>rw_table[0]\<close>), a read that is granted, and a write of transaction
  \<open>2^63\<close>, whose \<open>readValue\<close> would stop at the assertion on \<open>info\<close>.
\<close>

theorem twopl_operations_take_no_ticket_witness:
  "twopl_readValue exclusive_locks twopl_logged 7 0 0 0 0 1 1 = Inr (False, 7, twopl_logged_aborted)
   \<and> twopl_writeValue exclusive_locks False twopl_logged 5 0 0 0 0 1 1 = Inr (False, twopl_logged_aborted)
   \<and> lsn_columns twopl_logged_aborted = lsn_columns twopl_logged
   \<and> subseq (rw_tables twopl_logged_aborted 0 0) (rw_tables twopl_logged 0 0)
   \<and> twopl_readValue exclusive_locks twopl_fresh 7 0 0 0 0 0 1 =
       Inr (True, 0, twopl_fresh\<lparr>atom_info := [ReadTransactionInformation 0 0 0 0 1],
                                  lock_manager := [(1, 0)]\<rparr>)
   \<and> rw_tables (twopl_fresh\<lparr>atom_info := [ReadTransactionInformation 0 0 0 0 1],
                            lock_manager := [(1, 0)]\<rparr>) = rw_tables twopl_fresh
   \<and> lsn_columns (twopl_fresh\<lparr>atom_info := [ReadTransactionInformation 0 0 0 0 1],
                              lock_manager := [(1, 0)]\<rparr>) = lsn_columns twopl_fresh
   \<and> twopl_writeValue exclusive_locks False twopl_fresh 5 0 0 0 0 0 0x8000000000000000 =
       Inr (True, twopl_written_by_top)
   \<and> rw_tables twopl_written_by_top = rw_tables twopl_fresh
   \<and> lsn_columns twopl_written_by_top = lsn_columns twopl_fresh"
proof -
  have h1: "twopl_readValue exclusive_locks twopl_logged 7 0 0 0 0 1 1 = Inr (False, 7, twopl_logged_aborted)"
    by (simp add: twopl_readValue_def twopl_abort_def twopl_logged_def twopl_logged_aborted_def
        twopl_fresh_def exclusive_locks_def verify_def access_def deleteFromRWTable_def erase_def
        twopl_info_unlock_def)
  have h2: "twopl_writeValue exclusive_locks False twopl_logged 5 0 0 0 0 1 1 = Inr (False, twopl_logged_aborted)"
    by (simp add: twopl_writeValue_def twopl_abort_def twopl_logged_def twopl_logged_aborted_def
        twopl_fresh_def exclusive_locks_def verify_def access_def deleteFromRWTable_def erase_def
        twopl_info_unlock_def)
  have h3: "twopl_readValue exclusive_locks twopl_fresh 7 0 0 0 0 0 1 =
       Inr (True, 0, twopl_fresh\<lparr>atom_info := [ReadTransactionInformation 0 0 0 0 1],
                                  lock_manager := [(1, 0)]\<rparr>)"
    by (simp add: twopl_readValue_def twopl_fresh_def exclusive_locks_def verify_def access_def)
  have h4: "twopl_writeValue exclusive_locks False twopl_fresh 5 0 0 0 0 0 0x8000000000000000 =
       Inr (True, twopl_written_by_top)"
    by (simp add: twopl_writeValue_def twopl_fresh_def twopl_written_by_top_def exclusive_locks_def
        verify_def column_replace_def)
  note a = twopl_operations_take_no_ticket
    [where E = exclusive_locks and s = twopl_logged and rv = 7 and c = 0 and l = 0 and rw = 0
       and lk = 0 and off = 1 and tx = 1 and ab = False and v = 5]
  note b = twopl_operations_take_no_ticket
    [where E = exclusive_locks and s = twopl_fresh and rv = 7 and c = 0 and l = 0 and rw = 0
       and lk = 0 and off = 0 and tx = 1 and ab = False and v = 5]
  note d = twopl_operations_take_no_ticket
    [where E = exclusive_locks and s = twopl_fresh and rv = 7 and c = 0 and l = 0 and rw = 0
       and lk = 0 and off = 0 and tx = "0x8000000000000000" and ab = False and v = 5]
  from a h1 have a1: "lsn_columns twopl_logged_aborted = lsn_columns twopl_logged
      \<and> subseq (rw_tables twopl_logged_aborted 0 0) (rw_tables twopl_logged 0 0)"
    by blast
  from b h3 have b1: "rw_tables (twopl_fresh\<lparr>atom_info := [ReadTransactionInformation 0 0 0 0 1],
                            lock_manager := [(1, 0)]\<rparr>) = rw_tables twopl_fresh
      \<and> lsn_columns (twopl_fresh\<lparr>atom_info := [ReadTransactionInformation 0 0 0 0 1],
                              lock_manager := [(1, 0)]\<rparr>) = lsn_columns twopl_fresh"
    by blast
  from d h4 have d1: "rw_tables twopl_written_by_top = rw_tables twopl_fresh
      \<and> lsn_columns twopl_written_by_top = lsn_columns twopl_fresh"
    by blast
  from h1 h2 h3 h4 a1 b1 d1 show ?thesis
    by blast
qed

text \<open>
  The specification's wording, that every operation pushes its access record onto
  \<open>rw_table[c]\<close> and then stores \<open>prv + 1\<close> into \<open>lsn[c]\<close>, fails on a fresh table for the
  SS2PL \<open>readValue\<close> and the SGT \<open>writeValue\<close>: both return \<open>true\<close> and leave
  \<open>rw_table[0]\<close> empty and \<open>lsn[0]\<close> at 0. The SS2PL coordinator has no ticket code at
  all; in the SGT file the ticket code is commented out.
\<close>

theorem operations_push_no_access_record:
  "rw_tables twopl_fresh 0 0 = [] \<and> lsn_columns twopl_fresh 0 0 = 0
   \<and> twopl_readValue exclusive_locks twopl_fresh 7 0 0 0 0 0 1 =
       Inr (True, 0, twopl_fresh\<lparr>atom_info := [ReadTransactionInformation 0 0 0 0 1],
                                  lock_manager := [(1, 0)]\<rparr>)
   \<and> rw_tables (twopl_fresh\<lparr>atom_info := [ReadTransactionInformation 0 0 0 0 1],
                            lock_manager := [(1, 0)]\<rparr>) 0 0 = []
   \<and> lsn_columns (twopl_fresh\<lparr>atom_info := [ReadTransactionInformation 0 0 0 0 1],
                            lock_manager := [(1, 0)]\<rparr>) 0 0 = 0
   \<and> rw_tables sgt_fresh 0 0 = [] \<and> lsn_columns sgt_fresh 0 0 = 0
   \<and> sgt_writeValue marked_graph False sgt_fresh 5 0 0 0 0 0 1 =
       Inr (True, sgt_fresh\<lparr>columns := (columns sgt_fresh)(0 := (columns sgt_fresh 0)(0 := 5))\<rparr>)
   \<and> rw_tables (sgt_fresh\<lparr>columns := (columns sgt_fresh)(0 := (columns sgt_fresh 0)(0 := 5))\<rparr>) 0 0 = []
   \<and> lsn_columns (sgt_fresh\<lparr>columns := (columns sgt_fresh)(0 := (columns sgt_fresh 0)(0 := 5))\<rparr>) 0 0 = 0"
  by (simp add: twopl_readValue_def sgt_writeValue_def twopl_fresh_def sgt_fresh_def
      exclusive_locks_def marked_graph_def verify_def access_def column_replace_def)

end
